theory Spec2Isabelle
  imports Main
begin

section \<open>The dispatcher of pymobiledevice3: \<open>__main__.py\<close>\<close>

text \<open>
  The module has two parts with behaviour of their own: \<open>main\<close>, which runs the click
  entry point \<open>cli()\<close> under a chain of \<open>except\<close> clauses and re-invokes itself after
  extending \<open>sys.argv\<close>, and the class \<open>Pmd3Cli\<close>, a click group that imports the
  implementation of a command group on first use (\<open>functools.cached_property\<close>).
  Both are embedded below with their effects made explicit.
\<close>

subsection \<open>Exceptions\<close>

text \<open>
  One constructor for each exception class named by an \<open>except\<close> clause of \<open>main\<close>, with
  the fields the handlers read (\<open>e.identifier\<close>, \<open>str(e)\<close>, \<open>e.udid\<close>, \<open>e.os_name\<close>,
  \<open>e.feature\<close>). The classes themselves are declared in \<open>pymobiledevice3.exceptions\<close>;
  a value of this type stands for an exception by the first clause of the chain it is an
  instance of. Every other exception is \<open>OtherException cls msg\<close>, with the name of its
  class and its message.
\<close>

datatype exc =
    NoDeviceConnectedError
  | ConnectionAbortedError
  | NotPairedError
  | UserDeniedPairingError
  | PairingDialogResponsePendingError
  | SetProhibitedError
  | MissingValueError
  | DeviceHasPasscodeSetError
  | DeveloperModeError string
  | ConnectionFailedToUsbmuxdError
  | MessageNotSupportedError
  | InternalError
  | DeveloperModeIsNotEnabledError
  | InvalidServiceError "string option"
  | RSDRequiredError "string option"
  | NoDeviceSelectedError
  | PasswordRequiredError
  | AccessDeniedError
  | BrokenPipeError
  | TunneldConnectionError
  | DeviceNotFoundError string
  | NotEnoughDiskSpaceError
  | DeprecationError
  | OSNotSupportedError string
  | FeatureNotSupportedError string string
  | OtherException string string

subsection \<open>The state \<open>main\<close> acts on\<close>

text \<open>
  \<open>sys.argv\<close> is a list of strings until a retry appends \<open>e.identifier\<close>, which may be
  \<open>None\<close>: its elements are \<open>string option\<close>. What \<open>main\<close> writes through \<open>logger\<close> and
  \<open>traceback.print_exc()\<close> is kept as a list of events, oldest first. \<open>invocations\<close>
  records the argument list each call of \<open>cli()\<close> started with (click reads \<open>sys.argv\<close>
  when it is called without arguments).
\<close>

type_synonym arg = "string option"

datatype event = Error string | Warning string | PrintExc exc

record state =
  argv :: "arg list"
  log :: "event list"
  invocations :: "arg list list"

text \<open>
  The collaborators of \<open>main\<close>: \<open>cli\<close> is the click entry point, given by what it does on
  an argument list (\<open>None\<close>: it returns; \<open>Some e\<close>: it raises \<open>e\<close>), and
  \<open>access_denied_error\<close> is the text \<open>get_os_utils().access_denied_error\<close>.
\<close>

record env =
  cli :: "arg list \<Rightarrow> exc option"
  access_denied_error :: string

datatype outcome = Returned | Raised exc

definition logger_error :: "string \<Rightarrow> state \<Rightarrow> state" where
  "logger_error msg s = s\<lparr>log := log s @ [Error msg]\<rparr>"

definition logger_warning :: "string \<Rightarrow> state \<Rightarrow> state" where
  "logger_warning msg s = s\<lparr>log := log s @ [Warning msg]\<rparr>"

definition print_exc :: "exc \<Rightarrow> state \<Rightarrow> state" where
  "print_exc e s = s\<lparr>log := log s @ [PrintExc e]\<rparr>"

definition INVALID_SERVICE_MESSAGE :: string where
  "INVALID_SERVICE_MESSAGE =
    ''Failed to start service. Possible reasons are:\<newline>'' @
    ''- If you were trying to access a developer service (developer subcommand):\<newline>'' @
    ''    - Make sure the DeveloperDiskImage/PersonalizedImage is mounted via:\<newline>'' @
    ''      > python3 -m pymobiledevice3 mounter auto-mount\<newline>'' @
    ''\<newline>'' @
    ''    - If your device iOS version >= 17.0:\<newline>'' @
    ''        - Make sure you passed the --rsd option to the subcommand\<newline>'' @
    ''          https://github.com/doronz88/pymobiledevice3#working-with-developer-tools-ios--170\<newline>'' @
    ''\<newline>'' @
    ''- Apple removed this service\<newline>'' @
    ''\<newline>'' @
    ''- A bug. Please file a bug report:\<newline>'' @
    ''  https://github.com/doronz88/pymobiledevice3/issues/new?assignees=&labels=&projects=&template=bug_report.md&title=\<newline>''"

subsection \<open>The \<open>except\<close> clauses of \<open>main\<close>\<close>

text \<open>
  What the handler chain does with an exception raised by \<open>cli()\<close>: \<open>Finish r s\<close> when
  \<open>main\<close> ends there (returning, or with the exception still raised), \<open>Reinvoke s\<close>
  when it reaches \<open>return main()\<close>.
\<close>

datatype step = Finish outcome state | Reinvoke state

text \<open>
  The clause for \<open>(InvalidServiceError, RSDRequiredError)\<close>; \<open>is_rsd\<close> is
  \<open>isinstance(e, RSDRequiredError)\<close> and \<open>identifier\<close> is \<open>e.identifier\<close>.
\<close>

definition retry_clause :: "bool \<Rightarrow> string option \<Rightarrow> state \<Rightarrow> step" where
  "retry_clause is_rsd identifier s =
    (let (should_retry_over_tunneld, s1) =
       (if is_rsd then
          (True, logger_warning ''Trying again over tunneld since RSD is required for this command'' s)
        else if identifier \<noteq> None \<and> Some ''developer'' \<in> set (argv s)
                \<and> Some ''--tunnel'' \<notin> set (argv s) then
          (True, logger_warning ''Trying again over tunneld since it is a developer command'' s)
        else (False, s))
     in if should_retry_over_tunneld then
          Reinvoke (s1\<lparr>argv := argv s1 @ [Some ''--tunnel'', identifier]\<rparr>)
        else Finish Returned (logger_error INVALID_SERVICE_MESSAGE s1))"

fun except_clauses :: "env \<Rightarrow> exc \<Rightarrow> state \<Rightarrow> step" where
  "except_clauses ev NoDeviceConnectedError s =
     Finish Returned (logger_error ''Device is not connected'' s)"
| "except_clauses ev ConnectionAbortedError s =
     Finish Returned (logger_error ''Device was disconnected'' s)"
| "except_clauses ev NotPairedError s =
     Finish Returned (logger_error ''Device is not paired'' s)"
| "except_clauses ev UserDeniedPairingError s =
     Finish Returned (logger_error ''User refused to trust this computer'' s)"
| "except_clauses ev PairingDialogResponsePendingError s =
     Finish Returned (logger_error ''Waiting for user dialog approval'' s)"
| "except_clauses ev SetProhibitedError s =
     Finish Returned (logger_error ''lockdownd denied the access'' s)"
| "except_clauses ev MissingValueError s =
     Finish Returned (logger_error ''No such value'' s)"
| "except_clauses ev DeviceHasPasscodeSetError s =
     Finish Returned (logger_error ''Cannot enable developer-mode when passcode is set'' s)"
| "except_clauses ev (DeveloperModeError msg) s =
     Finish Returned (logger_error (''Failed to enable developer-mode. Error: '' @ msg) s)"
| "except_clauses ev ConnectionFailedToUsbmuxdError s =
     Finish Returned
       (logger_error ''Failed to connect to usbmuxd socket. Make sure it's running.'' s)"
| "except_clauses ev MessageNotSupportedError s =
     Finish Returned
       (print_exc MessageNotSupportedError
          (logger_error ''Message not supported for this iOS version'' s))"
| "except_clauses ev InternalError s =
     Finish Returned (logger_error ''Internal Error'' s)"
| "except_clauses ev DeveloperModeIsNotEnabledError s =
     Finish Returned
       (logger_error (''Developer Mode is disabled. You can try to enable it using: '' @
                      ''python3 -m pymobiledevice3 amfi enable-developer-mode'') s)"
| "except_clauses ev (InvalidServiceError identifier) s = retry_clause False identifier s"
| "except_clauses ev (RSDRequiredError identifier) s = retry_clause True identifier s"
| "except_clauses ev NoDeviceSelectedError s = Finish Returned s"
| "except_clauses ev PasswordRequiredError s =
     Finish Returned (logger_error ''Device is password protected. Please unlock and retry'' s)"
| "except_clauses ev AccessDeniedError s =
     Finish Returned (logger_error (access_denied_error ev) s)"
| "except_clauses ev BrokenPipeError s = Finish Returned (print_exc BrokenPipeError s)"
| "except_clauses ev TunneldConnectionError s =
     Finish Returned
       (logger_error (''Unable to connect to Tunneld. You can start one using:\<newline>'' @
                      ''sudo python3 -m pymobiledevice3 remote tunneld'') s)"
| "except_clauses ev (DeviceNotFoundError udid) s =
     Finish Returned (logger_error (''Device not found: '' @ udid) s)"
| "except_clauses ev NotEnoughDiskSpaceError s =
     Finish Returned (logger_error ''Not enough disk space'' s)"
| "except_clauses ev DeprecationError s =
     Finish Returned
       (logger_error ''failed to query MobileGestalt, MobileGestalt deprecated (iOS >= 17.4).'' s)"
| "except_clauses ev (OSNotSupportedError os_name) s =
     Finish Returned
       (logger_error (''Unsupported OS - '' @ os_name @
                      ''. To add support, consider contributing at '' @
                      ''https://github.com/doronz88/pymobiledevice3.'') s)"
| "except_clauses ev (FeatureNotSupportedError feature os_name) s =
     Finish Returned
       (logger_error (''Missing implementation of `'' @ feature @ ''` on `'' @ os_name @
                      ''`. To add support, consider contributing at '' @
                      ''https://github.com/doronz88/pymobiledevice3.'') s)"
| "except_clauses ev (OtherException cls msg) s = Finish (Raised (OtherException cls msg)) s"

subsection \<open>\<open>main\<close>\<close>

text \<open>
  \<open>main\<close> calls itself from its handler and the source puts no bound on that, so the
  model takes the number of invocations it may make: \<open>main n\<close> is \<open>None\<close> when \<open>n\<close>
  invocations of \<open>cli()\<close> do not bring it to an end.
\<close>

fun main :: "nat \<Rightarrow> env \<Rightarrow> state \<Rightarrow> (outcome \<times> state) option" where
  "main 0 ev s = None"
| "main (Suc n) ev s =
    (let s1 = s\<lparr>invocations := invocations s @ [argv s]\<rparr> in
     case cli ev (argv s1) of
       None \<Rightarrow> Some (Returned, s1)
     | Some e \<Rightarrow>
        (case except_clauses ev e s1 of
           Finish r s2 \<Rightarrow> Some (r, s2)
         | Reinvoke s2 \<Rightarrow> main n ev s2))"

subsection \<open>Command groups and the import system\<close>

text \<open>
  A resolved command group is a \<open>click.Group\<close> of the package \<open>pymobiledevice3.cli\<close>;
  \<open>Pmd3Cli\<close> uses its two methods only, so a group is the pair of them. The click
  context is passed through untouched and stays a type parameter.
\<close>

datatype command = Command string

record 'ctx click_group =
  get_command_of :: "'ctx \<Rightarrow> string \<Rightarrow> command option"
  list_commands_of :: "'ctx \<Rightarrow> string list"

type_synonym 'ctx module = "string \<rightharpoonup> 'ctx click_group"

text \<open>
  The interpreter's import state: \<open>sys_modules\<close> is the cache \<open>sys.modules\<close>, and
  \<open>loads\<close> lists, in order, the modules the import system went to load. What loading
  a module gives (the module, or the exception raised on the way) is the installation, a
  parameter \<open>loader\<close>. \<open>importlib.import_module\<close> answers from \<open>sys.modules\<close> when it
  can and enters a module there once it is loaded.
\<close>

record 'ctx interp =
  sys_modules :: "string \<rightharpoonup> 'ctx module"
  loads :: "string list"

type_synonym 'ctx loader = "string \<Rightarrow> exc + 'ctx module"

definition import_module ::
  "'ctx loader \<Rightarrow> string \<Rightarrow> 'ctx interp \<Rightarrow> (exc + 'ctx module) \<times> 'ctx interp" where
  "import_module loader name w =
    (case sys_modules w name of
       Some m \<Rightarrow> (Inr m, w)
     | None \<Rightarrow>
        (let w1 = w\<lparr>loads := loads w @ [name]\<rparr> in
         case loader name of
           Inl e \<Rightarrow> (Inl e, w1)
         | Inr m \<Rightarrow> (Inr m, w1\<lparr>sys_modules := (sys_modules w1)(name \<mapsto> m)\<rparr>)))"

definition quoted :: "string \<Rightarrow> string" where
  "quoted s = [CHR 0x27] @ s @ [CHR 0x27]"

definition getattr_module :: "'ctx module \<Rightarrow> string \<Rightarrow> string \<Rightarrow> exc + 'ctx click_group" where
  "getattr_module m module_name name =
    (case m name of
       Some attr \<Rightarrow> Inr attr
     | None \<Rightarrow>
        Inl (OtherException ''AttributeError''
               (''module '' @ quoted module_name @ '' has no attribute '' @ quoted name)))"

text \<open>\<open>s.split(":", 1)\<close>: one piece when \<open>s\<close> has no colon, two otherwise.\<close>

definition split_colon :: "string \<Rightarrow> string list" where
  "split_colon s =
    (let a = takeWhile (\<lambda>c. c \<noteq> CHR '':'') s;
         b = dropWhile (\<lambda>c. c \<noteq> CHR '':'') s
     in if b = [] then [a] else [a, tl b])"

subsection \<open>\<open>Pmd3Cli\<close>\<close>

text \<open>
  The provider keeps its locator and, once \<open>_impg\<close> has been computed, the value
  \<open>functools.cached_property\<close> stored for it.
\<close>

record 'ctx Pmd3Cli =
  import_name :: string
  impg_cache :: "'ctx click_group option"

definition Pmd3Cli_init :: "string \<Rightarrow> 'ctx interp \<Rightarrow> 'ctx Pmd3Cli \<times> 'ctx interp" where
  "Pmd3Cli_init name w = (\<lparr>import_name = name, impg_cache = None\<rparr>, w)"

text \<open>
  \<open>_impg\<close>. The body imports the module and reads the attribute twice (the first time
  between two readings of the clock) and returns the second value; what it prints on
  standard output, timings among it, is left out. An exception leaves the property
  uncomputed.
\<close>

definition impg ::
  "'ctx loader \<Rightarrow> 'ctx Pmd3Cli \<Rightarrow> 'ctx interp \<Rightarrow>
     (exc + 'ctx click_group) \<times> 'ctx Pmd3Cli \<times> 'ctx interp" where
  "impg loader self w =
    (case impg_cache self of
       Some g \<Rightarrow> (Inr g, self, w)
     | None \<Rightarrow>
        (case split_colon (import_name self) of
           [module, name] \<Rightarrow>
             (case import_module loader module w of
                (Inl e, w1) \<Rightarrow> (Inl e, self, w1)
              | (Inr m1, w1) \<Rightarrow>
                 (case getattr_module m1 module name of
                    Inl e \<Rightarrow> (Inl e, self, w1)
                  | Inr attr1 \<Rightarrow>
                     (case import_module loader module w1 of
                        (Inl e, w2) \<Rightarrow> (Inl e, self, w2)
                      | (Inr m2, w2) \<Rightarrow>
                         (case getattr_module m2 module name of
                            Inl e \<Rightarrow> (Inl e, self, w2)
                          | Inr attr \<Rightarrow> (Inr attr, self\<lparr>impg_cache := Some attr\<rparr>, w2)))))
         | _ \<Rightarrow>
             (Inl (OtherException ''ValueError''
                     ''not enough values to unpack (expected 2, got 1)''), self, w)))"

definition get_command ::
  "'ctx loader \<Rightarrow> 'ctx Pmd3Cli \<Rightarrow> 'ctx \<Rightarrow> string \<Rightarrow> 'ctx interp \<Rightarrow>
     (exc + command option) \<times> 'ctx Pmd3Cli \<times> 'ctx interp" where
  "get_command loader self ctx cmd_name w =
    (case impg loader self w of
       (Inl e, self1, w1) \<Rightarrow> (Inl e, self1, w1)
     | (Inr g, self1, w1) \<Rightarrow> (Inr (get_command_of g ctx cmd_name), self1, w1))"

definition list_commands ::
  "'ctx loader \<Rightarrow> 'ctx Pmd3Cli \<Rightarrow> 'ctx \<Rightarrow> 'ctx interp \<Rightarrow>
     (exc + string list) \<times> 'ctx Pmd3Cli \<times> 'ctx interp" where
  "list_commands loader self ctx w =
    (case impg loader self w of
       (Inl e, self1, w1) \<Rightarrow> (Inl e, self1, w1)
     | (Inr g, self1, w1) \<Rightarrow> (Inr (list_commands_of g ctx), self1, w1))"






subsection \<open>Concrete runs\<close>

text \<open>
  Inputs the theorems below are evaluated at. \<open>developer_dvt_ls\<close> is the command line
  \<open>developer dvt ls\<close> before anything ran.
\<close>

definition developer_dvt_ls :: state where
  "developer_dvt_ls =
    \<lparr>argv = [Some ''developer'', Some ''dvt'', Some ''ls''], log = [], invocations = []\<rparr>"

definition lockdown_info :: state where
  "lockdown_info = \<lparr>argv = [Some ''lockdown'', Some ''info''], log = [], invocations = []\<rparr>"


text \<open>Every invocation fails with the same exception.\<close>

definition always_raises :: "exc \<Rightarrow> env" where
  "always_raises e = \<lparr>cli = (\<lambda>a. Some e), access_denied_error = []\<rparr>"

text \<open>An invocation fails with \<open>e\<close> as long as the tunnel option is not on the command line.\<close>

definition raises_without_tunnel :: "exc \<Rightarrow> env" where
  "raises_without_tunnel e =
    \<lparr>cli = (\<lambda>a. if Some ''--tunnel'' \<in> set a then None else Some e),
     access_denied_error = []\<rparr>"


text \<open>
  An installation with one module, \<open>pymobiledevice3.cli.foo\<close>, whose attribute \<open>foo\<close> is
  a group with the single command \<open>foo\<close>; any other module is not found.
\<close>

definition foo_group :: "unit click_group" where
  "foo_group =
    \<lparr>get_command_of = (\<lambda>ctx n. if n = ''foo'' then Some (Command ''foo'') else None),
     list_commands_of = (\<lambda>ctx. [''foo''])\<rparr>"

definition installation :: "unit loader" where
  "installation name =
    (if name = ''pymobiledevice3.cli.foo'' then Inr [''foo'' \<mapsto> foo_group]
     else Inl (OtherException ''ModuleNotFoundError'' (''No module named '' @ quoted name)))"

definition fresh_interp :: "unit interp" where
  "fresh_interp = \<lparr>sys_modules = Map.empty, loads = []\<rparr>"

definition foo_provider :: "unit Pmd3Cli" where
  "foo_provider = fst (Pmd3Cli_init ''pymobiledevice3.cli.foo:foo'' fresh_interp)"



section \<open>Properties of the dispatcher\<close>

subsection \<open>One invocation of \<open>main\<close>\<close>





lemma invalid_service_step:
  "except_clauses ev (InvalidServiceError identifier) s =
     (if identifier \<noteq> None \<and> Some ''developer'' \<in> set (argv s) \<and> Some ''--tunnel'' \<notin> set (argv s)
      then Reinvoke \<lparr>argv = argv s @ [Some ''--tunnel'', identifier],
                  log = log s @ [Warning ''Trying again over tunneld since it is a developer command''],
                  invocations = invocations s\<rparr>
      else Finish Returned
             \<lparr>argv = argv s, log = log s @ [Error INVALID_SERVICE_MESSAGE],
              invocations = invocations s\<rparr>)"
  by (cases s) (simp add: retry_clause_def logger_warning_def logger_error_def)


lemma finish_keeps:
  "except_clauses ev e s = Finish r s2 \<Longrightarrow>
   invocations s2 = invocations s \<and> argv s2 = argv s"
  by (cases e)
     (simp_all add: retry_clause_def logger_error_def print_exc_def split: if_splits, auto)


text \<open>
  A re-invocation comes from one of the two errors of the retry clause, and the word
  appended after \<open>--tunnel\<close> is the identifier of that error.
\<close>

lemma reinvoke_identifier:
  "except_clauses ev e s = Reinvoke s2 \<Longrightarrow>
   \<exists>i. (e = InvalidServiceError i \<or> e = RSDRequiredError i) \<and>
       argv s2 = argv s @ [Some ''--tunnel'', i] \<and> invocations s2 = invocations s"
  by (cases e) (simp_all add: retry_clause_def logger_warning_def split: if_splits, auto)

text \<open>
  Re-indexing the command lines of a run when one more retry is put in front.
\<close>

lemma invocations_shift:
  "a # map (\<lambda>k. (a @ t) @ f k) [0..<Suc m] =
   map (\<lambda>k. a @ (case k of 0 \<Rightarrow> [] | Suc j \<Rightarrow> t @ f j)) [0..<Suc (Suc m)]"
proof -
  have "[0..<Suc (Suc m)] = 0 # map Suc [0..<Suc m]"
    by (simp only: map_Suc_upt upt_conv_Cons [of 0 "Suc (Suc m)"] zero_less_Suc)
  then show ?thesis by (simp add: comp_def del: upt_Suc)
qed

subsection \<open>Handlers without retry\<close>

text \<open>
  C8. When the command fails with \<open>NoDeviceSelectedError\<close>, \<open>main\<close> returns normally
  after that single invocation: nothing is logged or printed, the command line is unchanged
  and there is no re-invocation.
\<close>

theorem no_device_selected_silent:
  "cli ev (argv s) = Some NoDeviceSelectedError \<Longrightarrow>
   main (Suc n) ev s =
     Some (Returned, \<lparr>argv = argv s, log = log s, invocations = invocations s @ [argv s]\<rparr>)"
  by (cases s) simp

text \<open>
  An instance: \<open>lockdown info\<close> with no device selected.
\<close>

theorem no_device_selected_silent_witness:
  "main (Suc 0) (always_raises NoDeviceSelectedError) lockdown_info =
     Some (Returned, \<lparr>argv = [Some ''lockdown'', Some ''info''], log = [],
                      invocations = [[Some ''lockdown'', Some ''info'']]\<rparr>)"
  using no_device_selected_silent [of "always_raises NoDeviceSelectedError" lockdown_info 0]
  by (simp add: always_raises_def lockdown_info_def)

text \<open>
  C7. An exception of a class that no \<open>except\<close> clause of \<open>main\<close> names is not handled:
  it leaves \<open>main\<close> as raised, with its class and message intact, and \<open>main\<close> itself
  logs nothing and does not retry.
\<close>

theorem unclassified_propagates:
  "cli ev (argv s) = Some (OtherException cls msg) \<Longrightarrow>
   main (Suc n) ev s =
     Some (Raised (OtherException cls msg),
           \<lparr>argv = argv s, log = log s, invocations = invocations s @ [argv s]\<rparr>)"
  by (cases s) simp

text \<open>
  An instance: a \<open>KeyError\<close> raised by \<open>lockdown info\<close>.
\<close>

theorem unclassified_propagates_witness:
  "main (Suc 0) (always_raises (OtherException ''KeyError'' ''ProductVersion'')) lockdown_info =
     Some (Raised (OtherException ''KeyError'' ''ProductVersion''),
           \<lparr>argv = [Some ''lockdown'', Some ''info''], log = [],
            invocations = [[Some ''lockdown'', Some ''info'']]\<rparr>)"
  using unclassified_propagates
    [of "always_raises (OtherException ''KeyError'' ''ProductVersion'')" lockdown_info
        "''KeyError''" "''ProductVersion''" 0]
  by (simp add: always_raises_def lockdown_info_def)

subsection \<open>The retry over tunneld\<close>



text \<open>
  The test on the identifier is \<open>e.identifier is not None\<close>, not a test for a non-empty
  string: an \<open>InvalidServiceError\<close> whose identifier is the empty string is retried like
  any other, and the empty string is appended after \<open>--tunnel\<close>.
\<close>

theorem empty_identifier_is_retried:
  "main (Suc (Suc 0)) (raises_without_tunnel (InvalidServiceError (Some ''''))) developer_dvt_ls =
     Some (Returned,
       \<lparr>argv = [Some ''developer'', Some ''dvt'', Some ''ls'', Some ''--tunnel'', Some ''''],
        log = [Warning ''Trying again over tunneld since it is a developer command''],
        invocations =
          [[Some ''developer'', Some ''dvt'', Some ''ls''],
           [Some ''developer'', Some ''dvt'', Some ''ls'', Some ''--tunnel'', Some '''']]\<rparr>)"
  by (simp add: raises_without_tunnel_def developer_dvt_ls_def retry_clause_def logger_warning_def)

text \<open>
  C3, as the code has it. On \<open>InvalidServiceError\<close>, \<open>main\<close> retries if and only if
  the identifier of the error is not \<open>None\<close> (the empty string counts as an identifier),
  the word \<open>developer\<close> is on the command line and the word \<open>--tunnel\<close> is not. When
  one of the three fails, it logs the static invalid-service message as an error and returns
  without a retry.
\<close>

theorem invalid_service_retry_iff:
  "cli ev (argv s) = Some (InvalidServiceError identifier) \<Longrightarrow>
   main (Suc n) ev s =
     (if identifier \<noteq> None \<and> Some ''developer'' \<in> set (argv s) \<and> Some ''--tunnel'' \<notin> set (argv s)
      then main n ev
             \<lparr>argv = argv s @ [Some ''--tunnel'', identifier],
              log = log s @ [Warning ''Trying again over tunneld since it is a developer command''],
              invocations = invocations s @ [argv s]\<rparr>
      else Some (Returned,
                 \<lparr>argv = argv s, log = log s @ [Error INVALID_SERVICE_MESSAGE],
                  invocations = invocations s @ [argv s]\<rparr>))"
  by (auto simp add: invalid_service_step Let_def simp del: except_clauses.simps)

text \<open>
  Instances of each side: a developer command is retried once and, failing again with the
  flag present, ends with the static message; a command without \<open>developer\<close> and an error
  whose identifier is \<open>None\<close> end with the static message at once.
\<close>

theorem invalid_service_retry_iff_witness:
  "main (Suc (Suc 0)) (always_raises (InvalidServiceError (Some ''UDID1''))) developer_dvt_ls =
     Some (Returned,
       \<lparr>argv = [Some ''developer'', Some ''dvt'', Some ''ls'', Some ''--tunnel'', Some ''UDID1''],
        log = [Warning ''Trying again over tunneld since it is a developer command'',
               Error INVALID_SERVICE_MESSAGE],
        invocations =
          [[Some ''developer'', Some ''dvt'', Some ''ls''],
           [Some ''developer'', Some ''dvt'', Some ''ls'', Some ''--tunnel'', Some ''UDID1'']]\<rparr>)
   \<and> main (Suc 0) (always_raises (InvalidServiceError (Some ''UDID1''))) lockdown_info =
     Some (Returned,
       \<lparr>argv = [Some ''lockdown'', Some ''info''], log = [Error INVALID_SERVICE_MESSAGE],
        invocations = [[Some ''lockdown'', Some ''info'']]\<rparr>)
   \<and> main (Suc 0) (always_raises (InvalidServiceError None)) developer_dvt_ls =
     Some (Returned,
       \<lparr>argv = [Some ''developer'', Some ''dvt'', Some ''ls''],
        log = [Error INVALID_SERVICE_MESSAGE],
        invocations = [[Some ''developer'', Some ''dvt'', Some ''ls'']]\<rparr>)"
  using invalid_service_retry_iff
      [of "always_raises (InvalidServiceError (Some ''UDID1''))" developer_dvt_ls "Some ''UDID1''" "Suc 0"]
    invalid_service_retry_iff
      [of "always_raises (InvalidServiceError (Some ''UDID1''))"
          "\<lparr>argv = [Some ''developer'', Some ''dvt'', Some ''ls'', Some ''--tunnel'', Some ''UDID1''],
            log = [Warning ''Trying again over tunneld since it is a developer command''],
            invocations = [[Some ''developer'', Some ''dvt'', Some ''ls'']]\<rparr>" "Some ''UDID1''" 0]
    invalid_service_retry_iff
      [of "always_raises (InvalidServiceError (Some ''UDID1''))" lockdown_info "Some ''UDID1''" 0]
    invalid_service_retry_iff
      [of "always_raises (InvalidServiceError None)" developer_dvt_ls None 0]
  by (simp add: always_raises_def developer_dvt_ls_def lockdown_info_def del: main.simps)



subsection \<open>How often \<open>main\<close> re-invokes\<close>




subsection \<open>The command line after a retry\<close>

text \<open>
  \<open>sys.argv += [...]\<close> extends the list of the process in place and nothing restores
  it: after the retry of \<open>developer dvt ls\<close> has returned, the command line of the process
  still ends in \<open>--tunnel UDID1\<close>.
\<close>

theorem retry_stays_in_argv:
  "main (Suc (Suc 0)) (raises_without_tunnel (InvalidServiceError (Some ''UDID1''))) developer_dvt_ls
     \<noteq> None \<and>
   argv (snd (the (main (Suc (Suc 0)) (raises_without_tunnel (InvalidServiceError (Some ''UDID1'')))
                     developer_dvt_ls))) =
     [Some ''developer'', Some ''dvt'', Some ''ls'', Some ''--tunnel'', Some ''UDID1'']"
  by (simp add: raises_without_tunnel_def developer_dvt_ls_def retry_clause_def logger_warning_def)

text \<open>
  C9, as the code has it. When \<open>main\<close> returns or raises, the command line of the process
  is the initial command line followed, for every re-invocation that took place and in that
  order, by \<open>--tunnel\<close> and the identifier of the error that caused it: each appended flag
  and identifier is kept. The invocations of the run are exactly the prefixes of that final
  command line, one per retry, so the final command line is the one the last invocation ran
  on, and every identifier \<open>ids ! k\<close> is the one carried by the \<open>InvalidServiceError\<close> or
  \<open>RSDRequiredError\<close> with which the \<open>k\<close>-th invocation failed.
\<close>

theorem final_argv_keeps_every_retry:
  "main n ev s = Some (r, s') \<Longrightarrow>
   \<exists>ids. argv s' = argv s @ concat (map (\<lambda>i. [Some ''--tunnel'', i]) ids) \<and>
     invocations s' =
       invocations s @
       map (\<lambda>k. argv s @ concat (map (\<lambda>i. [Some ''--tunnel'', i]) (take k ids)))
         [0..<Suc (length ids)] \<and>
     (\<forall>k<length ids.
        cli ev (argv s @ concat (map (\<lambda>i. [Some ''--tunnel'', i]) (take k ids))) =
          Some (InvalidServiceError (ids ! k)) \<or>
        cli ev (argv s @ concat (map (\<lambda>i. [Some ''--tunnel'', i]) (take k ids))) =
          Some (RSDRequiredError (ids ! k)))"
proof (induction n arbitrary: s)
  case 0
  then show ?case by simp
next
  case (Suc n)
  let ?s1 = "s\<lparr>invocations := invocations s @ [argv s]\<rparr>"
  let ?tun = "\<lambda>i. [Some ''--tunnel'', i]"
  show ?case
  proof (cases "cli ev (argv s)")
    case None
    with Suc.prems have "s' = ?s1" by simp
    then have "argv s' = argv s @ concat (map ?tun [])"
      and "invocations s' =
             invocations s @ map (\<lambda>k. argv s @ concat (map ?tun (take k []))) [0..<Suc (length [])]"
      by simp_all
    then show ?thesis by (intro exI [of _ "[]"]) simp
  next
    case (Some e)
    show ?thesis
    proof (cases "except_clauses ev e ?s1")
      case (Finish r2 s2)
      with Some Suc.prems have "s' = s2" by simp
      with finish_keeps [OF Finish]
      have "argv s' = argv s" and "invocations s' = invocations s @ [argv s]" by simp_all
      then show ?thesis by (intro exI [of _ "[]"]) simp
    next
      case (Reinvoke s2)
      with Some Suc.prems have run: "main n ev s2 = Some (r, s')" by simp
      from reinvoke_identifier [OF Reinvoke] obtain i
        where kind: "e = InvalidServiceError i \<or> e = RSDRequiredError i"
          and argv2: "argv s2 = argv s @ ?tun i"
          and inv2: "invocations s2 = invocations s @ [argv s]"
        by auto
      from Suc.IH [OF run] obtain ids
        where final: "argv s' = argv s2 @ concat (map ?tun ids)"
          and invs: "invocations s' =
                 invocations s2 @
                 map (\<lambda>k. argv s2 @ concat (map ?tun (take k ids))) [0..<Suc (length ids)]"
          and fails: "\<forall>k<length ids.
                 cli ev (argv s2 @ concat (map ?tun (take k ids))) =
                   Some (InvalidServiceError (ids ! k)) \<or>
                 cli ev (argv s2 @ concat (map ?tun (take k ids))) =
                   Some (RSDRequiredError (ids ! k))"
        by blast
      have a: "argv s' = argv s @ concat (map ?tun (i # ids))"
        using final argv2 by simp
      have "invocations s' =
              invocations s @
              (argv s # map (\<lambda>k. (argv s @ ?tun i) @ concat (map ?tun (take k ids)))
                          [0..<Suc (length ids)])"
        using invs argv2 inv2 by simp
      also have "argv s # map (\<lambda>k. (argv s @ ?tun i) @ concat (map ?tun (take k ids)))
                          [0..<Suc (length ids)] =
            map (\<lambda>k. argv s @ (case k of 0 \<Rightarrow> [] | Suc j \<Rightarrow> ?tun i @ concat (map ?tun (take j ids))))
              [0..<Suc (Suc (length ids))]"
        by (rule invocations_shift)
      also have "\<dots> = map (\<lambda>k. argv s @ concat (map ?tun (take k (i # ids))))
                        [0..<Suc (length (i # ids))]"
        by (rule map_cong) (simp_all split: nat.split)
      finally have b: "invocations s' =
              invocations s @
              map (\<lambda>k. argv s @ concat (map ?tun (take k (i # ids)))) [0..<Suc (length (i # ids))]" .
      have c: "\<forall>k<length (i # ids).
              cli ev (argv s @ concat (map ?tun (take k (i # ids)))) =
                Some (InvalidServiceError ((i # ids) ! k)) \<or>
              cli ev (argv s @ concat (map ?tun (take k (i # ids)))) =
                Some (RSDRequiredError ((i # ids) ! k))"
      proof (intro allI impI)
        fix k assume k: "k < length (i # ids)"
        show "cli ev (argv s @ concat (map ?tun (take k (i # ids)))) =
                Some (InvalidServiceError ((i # ids) ! k)) \<or>
              cli ev (argv s @ concat (map ?tun (take k (i # ids)))) =
                Some (RSDRequiredError ((i # ids) ! k))"
        proof (cases k)
          case 0
          with Some kind show ?thesis by auto
        next
          case (Suc j)
          with k have "j < length ids" by simp
          with fails argv2 Suc show ?thesis by simp
        qed
      qed
      from a b c show ?thesis by (intro exI [of _ "i # ids"]) blast
    qed
  qed
qed

text \<open>
  An instance: the run of \<open>developer dvt ls\<close> with one retry.
\<close>

theorem final_argv_keeps_every_retry_witness:
  "main (Suc (Suc 0)) (raises_without_tunnel (InvalidServiceError (Some ''UDID1''))) developer_dvt_ls =
     Some (Returned,
       \<lparr>argv = [Some ''developer'', Some ''dvt'', Some ''ls'', Some ''--tunnel'', Some ''UDID1''],
        log = [Warning ''Trying again over tunneld since it is a developer command''],
        invocations =
          [[Some ''developer'', Some ''dvt'', Some ''ls''],
           [Some ''developer'', Some ''dvt'', Some ''ls'', Some ''--tunnel'', Some ''UDID1'']]\<rparr>)
   \<and> (\<exists>ids. [Some ''developer'', Some ''dvt'', Some ''ls'', Some ''--tunnel'', Some ''UDID1''] =
          argv developer_dvt_ls @ concat (map (\<lambda>i. [Some ''--tunnel'', i]) ids))"
  using final_argv_keeps_every_retry
    [of "Suc (Suc 0)" "raises_without_tunnel (InvalidServiceError (Some ''UDID1''))" developer_dvt_ls
        Returned
        "\<lparr>argv = [Some ''developer'', Some ''dvt'', Some ''ls'', Some ''--tunnel'', Some ''UDID1''],
          log = [Warning ''Trying again over tunneld since it is a developer command''],
          invocations =
            [[Some ''developer'', Some ''dvt'', Some ''ls''],
             [Some ''developer'', Some ''dvt'', Some ''ls'', Some ''--tunnel'', Some ''UDID1'']]\<rparr>"]
  by (auto simp add: raises_without_tunnel_def developer_dvt_ls_def retry_clause_def
      logger_warning_def)

section \<open>Properties of \<open>Pmd3Cli\<close>\<close>

subsection \<open>Imports and the cached group\<close>














lemma foo_impg:
  "impg installation foo_provider fresh_interp =
     (Inr foo_group, \<lparr>import_name = ''pymobiledevice3.cli.foo:foo'', impg_cache = Some foo_group\<rparr>,
      \<lparr>sys_modules = [''pymobiledevice3.cli.foo'' \<mapsto> [''foo'' \<mapsto> foo_group]],
       loads = [''pymobiledevice3.cli.foo'']\<rparr>)"
  by (simp add: impg_def foo_provider_def Pmd3Cli_init_def fresh_interp_def installation_def
      split_colon_def import_module_def getattr_module_def)

subsection \<open>Lazy resolution\<close>



subsection \<open>Delegation of \<open>get_command\<close>\<close>

text \<open>
  \<open>get_command\<close> has no fallback to a sole command: on the group whose only command is
  \<open>foo\<close>, \<open>list_commands\<close> gives \<open>[foo]\<close> and \<open>get_command\<close> for \<open>bar\<close> gives
  \<open>None\<close>.
\<close>

theorem single_command_no_fallback:
  "fst (list_commands installation foo_provider () fresh_interp) = Inr [''foo''] \<and>
   fst (get_command installation foo_provider () ''bar'' fresh_interp) = Inr None"
  by (simp add: list_commands_def get_command_def foo_impg foo_group_def)

text \<open>
  C2, as the code has it. For every requested name, \<open>get_command\<close> returns exactly what
  the \<open>get_command\<close> of the resolved group returns for that name, a found command as well
  as \<open>None\<close>; in particular, for a group that exposes exactly one command and does not
  find the requested name, the result is \<open>None\<close>.
\<close>

theorem get_command_delegates:
  "impg loader self w = (Inr g, self1, w1) \<Longrightarrow>
   get_command loader self ctx cmd_name w = (Inr (get_command_of g ctx cmd_name), self1, w1) \<and>
   (list_commands_of g ctx = [c] \<and> get_command_of g ctx cmd_name = None \<longrightarrow>
      get_command loader self ctx cmd_name w = (Inr None, self1, w1))"
  by (simp add: get_command_def)

text \<open>
  Instances: the provider of \<open>pymobiledevice3.cli.foo:foo\<close> asked for \<open>foo\<close> and for
  \<open>bar\<close>.
\<close>

theorem get_command_delegates_witness:
  "get_command installation foo_provider () ''foo'' fresh_interp =
     (Inr (Some (Command ''foo'')),
      \<lparr>import_name = ''pymobiledevice3.cli.foo:foo'', impg_cache = Some foo_group\<rparr>,
      \<lparr>sys_modules = [''pymobiledevice3.cli.foo'' \<mapsto> [''foo'' \<mapsto> foo_group]],
       loads = [''pymobiledevice3.cli.foo'']\<rparr>)
   \<and> get_command installation foo_provider () ''bar'' fresh_interp =
     (Inr None, \<lparr>import_name = ''pymobiledevice3.cli.foo:foo'', impg_cache = Some foo_group\<rparr>,
      \<lparr>sys_modules = [''pymobiledevice3.cli.foo'' \<mapsto> [''foo'' \<mapsto> foo_group]],
       loads = [''pymobiledevice3.cli.foo'']\<rparr>)"
  using get_command_delegates [OF foo_impg, of "()" "''foo''" "''foo''"]
    get_command_delegates [OF foo_impg, of "()" "''bar''" "''foo''"]
  by (simp add: foo_group_def)

subsection \<open>Failing resolution\<close>




end
